theory Spec2Isabelle
  imports Main "HOL-Library.Word"
begin

section \<open>drone-passwordstate: the plugin's data\<close>

text \<open>
  The embedding follows \<^verbatim>\<open>src/plugin/plugin.go\<close>. Go strings are byte sequences and are
  modelled as \<^typ>\<open>string\<close>; Go's \<^verbatim>\<open>int\<close> is the 64-bit integer of the amd64 build.
  The line feed and the apostrophe have no literal form and are named below.
\<close>

type_synonym goint = "64 word"

abbreviation LF :: char where "LF \<equiv> CHR 0x0A"
abbreviation APOS :: char where "APOS \<equiv> CHR 0x27"
abbreviation SPACE :: char where "SPACE \<equiv> CHR 0x20"
abbreviation TAB :: char where "TAB \<equiv> CHR 0x09"

record Config =
  ApiEndpoint :: string
  ApiKey :: string
  PasswordListId :: goint
  ConnectionRetries :: goint
  ConnectionTimeout :: goint
  SkipTlsVerify :: bool
  KeyField :: string
  ValueField :: string
  EncodeSecrets :: bool
  OutputPath :: string
  OutputFormat :: string
  SectionName :: string
  Debug :: bool
  NoSecretsFail :: bool

record Plugin =
  Config :: Config

record Secret =
  Key :: string
  Value :: string

text \<open>The element type of the API response, declared inside \<^verbatim>\<open>getSecrets\<close>.\<close>

record PasswordList =
  PasswordID :: goint
  Title :: string
  UserName :: string
  Description :: string
  GenericField1 :: string
  GenericField2 :: string
  GenericField3 :: string
  GenericField4 :: string
  GenericField5 :: string
  GenericField6 :: string
  GenericField7 :: string
  GenericField8 :: string
  GenericField9 :: string
  GenericField10 :: string
  AccountTypeID :: goint
  Notes :: string
  URL :: string
  Password :: string
  ExpiryDate :: string
  AllowExport :: bool
  AccountType :: string

text \<open>
  The errors \<^verbatim>\<open>Exec\<close> can return. \<open>UrlError\<close> carries what \<^verbatim>\<open>url.ParseRequestURI\<close>
  reported, \<open>FetchError\<close> what the HTTP client reported, \<open>OpenError\<close> the path that
  \<^verbatim>\<open>os.OpenFile\<close> could not open. The three \<^verbatim>\<open>errors.New\<close> values of the validation
  and the one of the empty guard are constructors of their own:
  \<open>ListIdNotValid\<close> is "provided list ID is not valid", \<open>ApiKeyMandatory\<close> is
  "api key is mandatory", \<open>FormatNotSupported\<close> is "currently only YAML format is
  supported", \<open>NoSecretsRetrieved\<close> is "no secrets were retrieved from PasswordState".
\<close>

datatype error =
    UrlError string
  | ListIdNotValid
  | ApiKeyMandatory
  | FormatNotSupported
  | FetchError string
  | NoSecretsRetrieved
  | OpenError string

section \<open>Library functions the plugin calls\<close>

subsection \<open>strings.Trim and strings.TrimRight\<close>

text \<open>
  \<^verbatim>\<open>strings.TrimRight(s, cutset)\<close> drops trailing bytes that occur in the cutset,
  \<^verbatim>\<open>strings.TrimLeft\<close> leading ones, and \<^verbatim>\<open>strings.Trim\<close> does both. The plugin
  only passes the one-byte ASCII cutsets \<^verbatim>\<open>" "\<close> and \<^verbatim>\<open>"/"\<close>.
\<close>

fun TrimLeft :: "string \<Rightarrow> string \<Rightarrow> string" where
  "TrimLeft [] cutset = []"
| "TrimLeft (c # s) cutset = (if c \<in> set cutset then TrimLeft s cutset else c # s)"

fun TrimRight :: "string \<Rightarrow> string \<Rightarrow> string" where
  "TrimRight [] cutset = []"
| "TrimRight (c # s) cutset =
     (case TrimRight s cutset of
        [] \<Rightarrow> (if c \<in> set cutset then [] else [c])
      | d # t \<Rightarrow> c # d # t)"

definition Trim :: "string \<Rightarrow> string \<Rightarrow> string" where
  "Trim s cutset = TrimLeft (TrimRight s cutset) cutset"

subsection \<open>strconv.Itoa\<close>

definition digit :: "nat \<Rightarrow> char" where
  "digit d = ''0123456789'' ! d"

fun FormatUint :: "nat \<Rightarrow> string" where
  "FormatUint n = (if n < 10 then [digit n] else FormatUint (n div 10) @ [digit (n mod 10)])"

declare FormatUint.simps [simp del]

definition Itoa :: "goint \<Rightarrow> string" where
  "Itoa i = (if sint i < 0 then CHR ''-'' # FormatUint (nat (- sint i)) else FormatUint (nat (sint i)))"

subsection \<open>base64.StdEncoding.EncodeToString\<close>

text \<open>
  The standard alphabet of RFC 4648 with \<^verbatim>\<open>=\<close> padding: three bytes become four
  characters, a last group of one or two bytes is padded.
\<close>

definition encodeStd :: string where
  "encodeStd = ''ABCDEFGHIJKLMNOPQRSTUVWXYZabcdefghijklmnopqrstuvwxyz0123456789+/''"

definition enc6 :: "nat \<Rightarrow> char" where
  "enc6 n = encodeStd ! (n mod 64)"

fun EncodeToString :: "string \<Rightarrow> string" where
  "EncodeToString [] = []"
| "EncodeToString [a] =
     (let v = of_char a * 65536
      in [enc6 (v div 262144), enc6 (v div 4096), CHR ''='', CHR ''=''])"
| "EncodeToString [a, b] =
     (let v = of_char a * 65536 + of_char b * 256
      in [enc6 (v div 262144), enc6 (v div 4096), enc6 (v div 64), CHR ''=''])"
| "EncodeToString (a # b # c # src) =
     (let v = of_char a * 65536 + of_char b * 256 + of_char c
      in [enc6 (v div 262144), enc6 (v div 4096), enc6 (v div 64), enc6 v]
         @ EncodeToString src)"

subsection \<open>net/url: ParseRequestURI\<close>

text \<open>
  \<^verbatim>\<open>url.ParseRequestURI(rawurl)\<close> is \<^verbatim>\<open>parse(rawurl, true)\<close> of package \<^verbatim>\<open>net/url\<close>; only
  whether it returns an error matters to the plugin, so the model returns \<open>Some\<close> of the
  error's text or \<open>None\<close>. Two things differ between versions of the library and are
  taken from a \<open>NetURL\<close> value: whether a URL with an ASCII control byte is refused (it is
  not in Go 1.10.3, the version the repository's build file names, and is from Go 1.12 on),
  and the parser of the authority (user, host, port), which is reached only for a URL
  with a scheme followed by \<^verbatim>\<open>//\<close>.
\<close>

record NetURL =
  rejectsControlBytes :: bool
  parseAuthority :: "string \<Rightarrow> string option"

definition stringContainsCTLByte :: "string \<Rightarrow> bool" where
  "stringContainsCTLByte s = list_ex (\<lambda>b. (of_char b :: nat) < 32 \<or> (of_char b :: nat) = 127) s"

definition isLetter :: "char \<Rightarrow> bool" where
  "isLetter c = ((97 \<le> (of_char c :: nat) \<and> (of_char c :: nat) \<le> 122)
               \<or> (65 \<le> (of_char c :: nat) \<and> (of_char c :: nat) \<le> 90))"

definition isDigit :: "char \<Rightarrow> bool" where
  "isDigit c = (48 \<le> (of_char c :: nat) \<and> (of_char c :: nat) \<le> 57)"

definition ishex :: "char \<Rightarrow> bool" where
  "ishex c = (isDigit c \<or> (97 \<le> (of_char c :: nat) \<and> (of_char c :: nat) \<le> 102)
             \<or> (65 \<le> (of_char c :: nat) \<and> (of_char c :: nat) \<le> 70))"

text \<open>
  The loop of \<^verbatim>\<open>getscheme\<close>: \<open>seen\<close> is \<^verbatim>\<open>rawurl[:i]\<close>, the third argument is
  \<^verbatim>\<open>rawurl[i:]\<close>. The result is an error, or the scheme (empty when there is none) and
  the rest.
\<close>

fun getschemeLoop :: "string \<Rightarrow> string \<Rightarrow> string \<Rightarrow> string + (string \<times> string)" where
  "getschemeLoop rawurl seen [] = Inr ([], rawurl)"
| "getschemeLoop rawurl seen (c # cs) =
    (if isLetter c then getschemeLoop rawurl (seen @ [c]) cs
     else if isDigit c \<or> c = CHR ''+'' \<or> c = CHR ''-'' \<or> c = CHR ''.''
     then (if seen = [] then Inr ([], rawurl) else getschemeLoop rawurl (seen @ [c]) cs)
     else if c = CHR '':''
     then (if seen = [] then Inl ''missing protocol scheme'' else Inr (seen, cs))
     else Inr ([], rawurl))"

definition getscheme :: "string \<Rightarrow> string + (string \<times> string)" where
  "getscheme rawurl = getschemeLoop rawurl [] rawurl"

text \<open>\<^verbatim>\<open>split(s, c, cutc)\<close> of the package, for a one-byte separator.\<close>

definition splitAtByte :: "string \<Rightarrow> char \<Rightarrow> bool \<Rightarrow> string \<times> string" where
  "splitAtByte s c cutc =
    (if c \<in> set s
     then (takeWhile (\<lambda>x. x \<noteq> c) s,
           if cutc then drop 1 (dropWhile (\<lambda>x. x \<noteq> c) s) else dropWhile (\<lambda>x. x \<noteq> c) s)
     else (s, []))"

text \<open>
  \<^verbatim>\<open>setPath\<close> fails when \<^verbatim>\<open>unescape(p, encodePath)\<close> does: at a \<^verbatim>\<open>%\<close> that is not
  followed by two hexadecimal digits. The error's text names the escape, at most three
  bytes, between double quotes.
\<close>

fun setPath :: "string \<Rightarrow> string option" where
  "setPath [] = None"
| "setPath (c # s) =
    (if c = CHR ''%''
     then (case s of
             a # b # t \<Rightarrow>
               if ishex a \<and> ishex b then setPath t
               else Some (''invalid URL escape '' @ [CHR 0x22] @ take 3 (c # s) @ [CHR 0x22])
           | _ \<Rightarrow> Some (''invalid URL escape '' @ [CHR 0x22] @ take 3 (c # s) @ [CHR 0x22]))
     else setPath s)"

definition urlParseRequestURI :: "NetURL \<Rightarrow> string \<Rightarrow> string option" where
  "urlParseRequestURI lib rawurl =
    (if rejectsControlBytes lib \<and> stringContainsCTLByte rawurl
     then Some ''net/url: invalid control character in URL''
     else if rawurl = [] then Some ''empty url''
     else if rawurl = ''*'' then None
     else
       (case getscheme rawurl of
          Inl err \<Rightarrow> Some err
        | Inr (scheme, rest) \<Rightarrow>
            (let rest' =
                   (if rest \<noteq> [] \<and> last rest = CHR ''?'' \<and> count_list rest (CHR ''?'') = 1
                    then butlast rest
                    else fst (splitAtByte rest (CHR ''?'') True))
             in if take 1 rest' = ''/''
                then
                  (if scheme \<noteq> [] \<and> take 2 rest' = ''//''
                   then
                     (case parseAuthority lib (fst (splitAtByte (drop 2 rest') (CHR ''/'') False)) of
                        Some err \<Rightarrow> Some err
                      | None \<Rightarrow> setPath (snd (splitAtByte (drop 2 rest') (CHR ''/'') False)))
                   else setPath rest')
                else if scheme \<noteq> [] then None
                else Some ''invalid URI for request'')))"

text \<open>The scheme \<^verbatim>\<open>getscheme\<close> finds, empty when it finds none: a URL is absolute when it
  has one.\<close>

definition schemeOf :: "string \<Rightarrow> string" where
  "schemeOf rawurl = (case getscheme rawurl of Inl err \<Rightarrow> [] | Inr (scheme, rest) \<Rightarrow> scheme)"

subsection \<open>reflect: FieldByName and Value.String\<close>

text \<open>
  \<^verbatim>\<open>reflect.Value.FieldByName\<close> returns the zero Value when the struct has no field of
  that name. \<^verbatim>\<open>Value.String\<close> returns the string of a string-kinded Value,
  \<^verbatim>\<open>"<invalid Value>"\<close> for the zero Value, and \<^verbatim>\<open>"<T Value>"\<close> for a Value of any
  other type \<^verbatim>\<open>T\<close>; it never panics.
\<close>

datatype rvalue = Invalid | StringValue string | IntValue goint | BoolValue bool

definition FieldByName :: "PasswordList \<Rightarrow> string \<Rightarrow> rvalue" where
  "FieldByName password name =
    (if name = ''PasswordID'' then IntValue (PasswordID password)
     else if name = ''Title'' then StringValue (Title password)
     else if name = ''UserName'' then StringValue (UserName password)
     else if name = ''Description'' then StringValue (Description password)
     else if name = ''GenericField1'' then StringValue (GenericField1 password)
     else if name = ''GenericField2'' then StringValue (GenericField2 password)
     else if name = ''GenericField3'' then StringValue (GenericField3 password)
     else if name = ''GenericField4'' then StringValue (GenericField4 password)
     else if name = ''GenericField5'' then StringValue (GenericField5 password)
     else if name = ''GenericField6'' then StringValue (GenericField6 password)
     else if name = ''GenericField7'' then StringValue (GenericField7 password)
     else if name = ''GenericField8'' then StringValue (GenericField8 password)
     else if name = ''GenericField9'' then StringValue (GenericField9 password)
     else if name = ''GenericField10'' then StringValue (GenericField10 password)
     else if name = ''AccountTypeID'' then IntValue (AccountTypeID password)
     else if name = ''Notes'' then StringValue (Notes password)
     else if name = ''URL'' then StringValue (URL password)
     else if name = ''Password'' then StringValue (Password password)
     else if name = ''ExpiryDate'' then StringValue (ExpiryDate password)
     else if name = ''AllowExport'' then BoolValue (AllowExport password)
     else if name = ''AccountType'' then StringValue (AccountType password)
     else Invalid)"

fun String :: "rvalue \<Rightarrow> string" where
  "String Invalid = ''<invalid Value>''"
| "String (StringValue s) = s"
| "String (IntValue i) = ''<int Value>''"
| "String (BoolValue b) = ''<bool Value>''"

section \<open>The world outside the plugin\<close>

text \<open>
  A path names a regular file with its bytes, a directory, or nothing. An open file is
  its path and the offset of the next write. Everything the plugin sends over HTTP is
  recorded in \<open>sent\<close>. Log lines are not modelled.
\<close>

datatype node = Regular string | Directory

type_synonym filesystem = "string \<rightharpoonup> node"

record File =
  name :: string
  offset :: nat

record Request =
  RequestURL :: string
  PathParams :: "string \<rightharpoonup> string"
  QueryParams :: "string \<rightharpoonup> string"
  Headers :: "string \<rightharpoonup> string"
  RetryCount :: goint
  Timeout :: goint
  ClientDebug :: bool
  InsecureSkipVerify :: bool

record World =
  files :: filesystem
  sent :: "Request list"

text \<open>
  \<^verbatim>\<open>os.OpenFile(filename, os.O_WRONLY|os.O_CREATE, 0644)\<close>: an absent path is created
  empty, an existing regular file is opened as it is at offset 0 (the flags hold no
  \<^verbatim>\<open>O_TRUNC\<close> and no \<^verbatim>\<open>O_APPEND\<close>), the empty path and a directory cannot be opened
  for writing. A directory stands for every path the system refuses to open (a missing
  parent, no permission): the plugin treats them alike.
\<close>

definition OpenFile :: "filesystem \<Rightarrow> string \<Rightarrow> filesystem \<times> (error + File)" where
  "OpenFile fs filename =
    (if filename = [] then (fs, Inl (OpenError filename))
     else case fs filename of
        None \<Rightarrow> (fs(filename \<mapsto> Regular []), Inr \<lparr>name = filename, offset = 0\<rparr>)
      | Some (Regular old) \<Rightarrow> (fs, Inr \<lparr>name = filename, offset = 0\<rparr>)
      | Some Directory \<Rightarrow> (fs, Inl (OpenError filename)))"

text \<open>
  \<^verbatim>\<open>f.WriteString(s)\<close> puts the bytes of \<open>s\<close> at the file's offset, over what is there,
  and advances the offset; bytes of the file past the written range stay. The plugin
  discards what \<^verbatim>\<open>WriteString\<close> returns, so a write is modelled as succeeding.
\<close>

definition WriteString :: "filesystem \<times> File \<Rightarrow> string \<Rightarrow> filesystem \<times> File" where
  "WriteString st s =
    (case st of (fs, f) \<Rightarrow>
      (case fs (name f) of
         Some (Regular old) \<Rightarrow>
           (fs(name f \<mapsto> Regular (take (offset f) old @ replicate (offset f - length old) (CHR 0x00)
                                     @ s @ drop (offset f + length s) old)),
            f\<lparr>offset := offset f + length s\<rparr>)
       | _ \<Rightarrow> (fs, f)))"

section \<open>The plugin\<close>

subsection \<open>outputToYaml\<close>

text \<open>The loop over the secrets, each written as \<^verbatim>\<open>fmt.Sprintf("  %s: '%s'\n", key, value)\<close>.\<close>

fun writeSecrets :: "bool \<Rightarrow> Secret list \<Rightarrow> filesystem \<times> File \<Rightarrow> filesystem \<times> File" where
  "writeSecrets encode [] st = st"
| "writeSecrets encode (secret # secrets) st =
    (let key = Trim (Key secret) '' '';
         value = Trim (Value secret) '' '';
         value = (if encode then EncodeToString value else value)
     in writeSecrets encode secrets
          (WriteString st (''  '' @ key @ '': '' @ [APOS] @ value @ [APOS, LF])))"

definition outputToYaml ::
  "filesystem \<Rightarrow> string \<Rightarrow> string \<Rightarrow> bool \<Rightarrow> Secret list \<Rightarrow> filesystem \<times> error option" where
  "outputToYaml fs filename section encode secrets =
    (case OpenFile fs filename of
       (fs', Inl err) \<Rightarrow> (fs', Some err)
     | (fs', Inr f) \<Rightarrow>
         (fst (writeSecrets encode secrets
                 (WriteString (fs', f) (''---'' @ [LF] @ section @ '':'' @ [LF]))),
          None))"

subsection \<open>getSecrets\<close>

text \<open>The loop that turns the retrieved passwords into secrets; \<open>secrets\<close> is the slice
  appended to.\<close>

fun convert :: "string \<Rightarrow> string \<Rightarrow> PasswordList list \<Rightarrow> Secret list \<Rightarrow> Secret list" where
  "convert keyField valueField [] secrets = secrets"
| "convert keyField valueField (password # passwords) secrets =
    (let key = String (FieldByName password keyField)
     in if key = [] \<or> key = ''<invalid Value>''
        then convert keyField valueField passwords secrets
        else
          let value = String (FieldByName password valueField)
          in if value = [] \<or> value = ''<invalid Value>''
             then convert keyField valueField passwords secrets
             else convert keyField valueField passwords
                    (secrets @ [\<lparr>Key = key, Value = value\<rparr>]))"

text \<open>The request the configured client sends.\<close>

definition request :: "Config \<Rightarrow> Request" where
  "request c =
    \<lparr>RequestURL = TrimRight (ApiEndpoint c) ''/'' @ ''/passwords/{PasswordListID}'',
     PathParams = [''PasswordListID'' \<mapsto> Itoa (PasswordListId c)],
     QueryParams = [''QueryAll'' \<mapsto> ''true'', ''PreventAuditing'' \<mapsto> ''false''],
     Headers = [''APIKey'' \<mapsto> ApiKey c, ''Content-Type'' \<mapsto> ''application/json''],
     RetryCount = ConnectionRetries c,
     Timeout = ConnectionTimeout c * 1000000000,
     ClientDebug = Debug c,
     InsecureSkipVerify = SkipTlsVerify c\<rparr>"

text \<open>
  \<open>Get\<close> stands for the HTTP exchange and the decoding of its body: an error of the
  client, or the passwords of the response.
\<close>

definition getSecrets ::
  "(Request \<Rightarrow> string + PasswordList list) \<Rightarrow> Plugin \<Rightarrow> World \<Rightarrow> World \<times> (error + Secret list)" where
  "getSecrets Get p w =
    (let r = request (Config p);
         w' = w\<lparr>sent := sent w @ [r]\<rparr>
     in case Get r of
          Inl err \<Rightarrow> (w', Inl (FetchError err))
        | Inr passwords \<Rightarrow>
            (w', Inr (convert (KeyField (Config p)) (ValueField (Config p)) passwords [])))"

subsection \<open>Exec\<close>

text \<open>
  \<open>ParseRequestURI\<close> stands for \<^verbatim>\<open>url.ParseRequestURI\<close>: \<open>Some\<close> of its error, or
  \<open>None\<close> when the endpoint parses; \<open>urlParseRequestURI\<close> above is the model of the
  library's function that takes this place. The value of \<^verbatim>\<open>outputToYaml\<close> is dropped by
  the caller, as in the source.
\<close>

definition Exec ::
  "(string \<Rightarrow> string option) \<Rightarrow> (Request \<Rightarrow> string + PasswordList list) \<Rightarrow> Plugin \<Rightarrow> World
     \<Rightarrow> World \<times> error option" where
  "Exec ParseRequestURI Get p w =
    (case ParseRequestURI (ApiEndpoint (Config p)) of
       Some err \<Rightarrow> (w, Some (UrlError err))
     | None \<Rightarrow>
        if PasswordListId (Config p) = 0 then (w, Some ListIdNotValid)
        else if ApiKey (Config p) = [] then (w, Some ApiKeyMandatory)
        else if OutputFormat (Config p) \<noteq> ''YAML'' then (w, Some FormatNotSupported)
        else
          (case getSecrets Get p w of
             (w', Inl err) \<Rightarrow> (w', Some err)
           | (w', Inr secrets) \<Rightarrow>
               if NoSecretsFail (Config p) \<and> length secrets = 0
               then (w', Some NoSecretsRetrieved)
               else if OutputFormat (Config p) = ''YAML''
               then (w'\<lparr>files := fst (outputToYaml (files w') (OutputPath (Config p))
                                       (SectionName (Config p)) (EncodeSecrets (Config p)) secrets)\<rparr>,
                     None)
               else (w', None)))"

section \<open>Notions used in the statements\<close>

text \<open>
  The string the loop of \<^verbatim>\<open>outputToYaml\<close> writes for one secret, and the concatenation
  of everything one call writes: the header, then the lines in order.
\<close>

definition yamlLine :: "bool \<Rightarrow> Secret \<Rightarrow> string" where
  "yamlLine encode secret = ''  '' @ Trim (Key secret) '' '' @ '': '' @ [APOS]
     @ (if encode then EncodeToString (Trim (Value secret) '' '') else Trim (Value secret) '' '')
     @ [APOS, LF]"

definition document :: "string \<Rightarrow> bool \<Rightarrow> Secret list \<Rightarrow> string" where
  "document section encode secrets =
     ''---'' @ [LF] @ section @ '':'' @ [LF] @ concat (map (yamlLine encode) secrets)"

text \<open>
  Values for the examples: a parser that rejects only the empty endpoint (as
  \<^verbatim>\<open>url.ParseRequestURI\<close> does with "empty url"), the configuration of the specification's
  example, the zero value of \<^verbatim>\<open>PasswordList\<close> (what decoding \<^verbatim>\<open>{}\<close> gives), and a world
  with no file and nothing sent.
\<close>

definition parseNonEmpty :: "string \<Rightarrow> string option" where
  "parseNonEmpty rawURL = (if rawURL = [] then Some ''empty url'' else None)"

text \<open>
  A library for the examples: Go 1.10.3's treatment of control bytes, and an authority
  parser that accepts a plain host name (letters, digits, dots, hyphens), as every version
  of the package does, and refuses anything else.
\<close>

definition exampleNetURL :: NetURL where
  "exampleNetURL =
     \<lparr>rejectsControlBytes = False,
      parseAuthority = (\<lambda>authority.
         if authority \<noteq> [] \<and> list_all (\<lambda>c. isLetter c \<or> isDigit c \<or> c = CHR ''.'' \<or> c = CHR ''-'') authority
         then None else Some ''invalid authority'')\<rparr>"

definition exampleConfig :: Config where
  "exampleConfig =
     \<lparr>ApiEndpoint = ''https://ps.example.com'', ApiKey = ''k'', PasswordListId = 42,
      ConnectionRetries = 0, ConnectionTimeout = 0, SkipTlsVerify = False,
      KeyField = ''Title'', ValueField = ''Password'', EncodeSecrets = False,
      OutputPath = ''out.yml'', OutputFormat = ''YAML'', SectionName = ''secrets'',
      Debug = False, NoSecretsFail = False\<rparr>"

definition zeroPassword :: PasswordList where
  "zeroPassword =
     \<lparr>PasswordID = 0, Title = [], UserName = [], Description = [], GenericField1 = [],
      GenericField2 = [], GenericField3 = [], GenericField4 = [], GenericField5 = [],
      GenericField6 = [], GenericField7 = [], GenericField8 = [], GenericField9 = [],
      GenericField10 = [], AccountTypeID = 0, Notes = [], URL = [], Password = [],
      ExpiryDate = [], AllowExport = False, AccountType = []\<rparr>"

definition emptyWorld :: World where
  "emptyWorld = \<lparr>files = Map.empty, sent = []\<rparr>"

section \<open>Properties of the library functions\<close>

lemma TrimLeft_byte: "TrimLeft s [c] = dropWhile (\<lambda>x. x = c) s"
  by (induction s) simp_all

lemma TrimRight_Nil_iff: "TrimRight s cutset = [] \<longleftrightarrow> set s \<subseteq> set cutset"
  by (induction s) (auto split: list.splits)

lemma TrimRight_byte: "TrimRight s [c] = rev (dropWhile (\<lambda>x. x = c) (rev s))"
proof (induction s)
  case Nil
  then show ?case by simp
next
  case (Cons a s)
  show ?case
  proof (cases "TrimRight s [c]")
    case Nil
    then have "set s \<subseteq> {c}" using TrimRight_Nil_iff [of s "[c]"] by simp
    then have "\<forall>x\<in>set (rev s). x = c" by auto
    then show ?thesis using Nil by (simp add: dropWhile_append)
  next
    case (Cons d t)
    then have "\<not> set s \<subseteq> {c}" using TrimRight_Nil_iff [of s "[c]"] by simp
    then have "\<not> (\<forall>x\<in>set (rev s). x = c)" by auto
    then show ?thesis using Cons Cons.IH by (simp add: dropWhile_append)
  qed
qed

lemma digit_value:
  assumes "d < 10"
  shows "of_char (digit d) - 48 = d"
proof -
  from assms have "d = 0 \<or> d = 1 \<or> d = 2 \<or> d = 3 \<or> d = 4 \<or> d = 5 \<or> d = 6 \<or> d = 7 \<or> d = 8 \<or> d = 9"
    by arith
  then show ?thesis by (auto simp add: digit_def)
qed

lemma FormatUint_value:
  "foldl (\<lambda>a ch. 10 * a + (of_char ch - 48)) 0 (FormatUint n) = n"
proof (induction n rule: FormatUint.induct)
  case (1 n)
  show ?case
  proof (cases "n < 10")
    case True
    then show ?thesis by (simp add: FormatUint.simps [of n] digit_value)
  next
    case False
    then show ?thesis using 1 by (simp add: FormatUint.simps [of n] digit_value)
  qed
qed


lemma getschemeLoop_no_scheme:
  "getschemeLoop rawurl seen s = Inr ([], rest) \<Longrightarrow> rest = rawurl"
  by (induction rawurl seen s rule: getschemeLoop.induct) (auto split: if_splits)

lemma getscheme_no_scheme: "getscheme rawurl = Inr ([], rest) \<Longrightarrow> rest = rawurl"
  unfolding getscheme_def by (rule getschemeLoop_no_scheme)

lemma getscheme_slash: "getscheme (CHR ''/'' # t) = Inr ([], CHR ''/'' # t)"
  by (simp add: getscheme_def isLetter_def isDigit_def)

lemma setPath_no_percent: "CHR ''%'' \<notin> set s \<Longrightarrow> setPath s = None"
  by (induction s) auto

lemma query_cut_prefix:
  assumes "rest' = (if rest \<noteq> [] \<and> last rest = CHR ''?'' \<and> count_list rest (CHR ''?'') = 1
                    then butlast rest else fst (splitAtByte rest (CHR ''?'') True))"
  shows "set rest' \<subseteq> set rest"
    and "take 1 rest' = ''/'' \<Longrightarrow> take 1 rest = ''/''"
    and "take 1 rest = ''/'' \<Longrightarrow> take 1 rest' = ''/''"
proof -
  show "set rest' \<subseteq> set rest"
    unfolding assms by (auto simp add: splitAtByte_def dest: in_set_butlastD set_takeWhileD)
  show "take 1 rest' = ''/'' \<Longrightarrow> take 1 rest = ''/''"
    unfolding assms by (cases rest) (auto simp add: splitAtByte_def split: if_splits)
  show "take 1 rest = ''/'' \<Longrightarrow> take 1 rest' = ''/''"
    unfolding assms by (cases rest) (auto simp add: splitAtByte_def split: if_splits)
qed

lemma urlParseRequestURI_rejects:
  assumes "ep \<noteq> ''*''" and "take 1 ep \<noteq> ''/''" and "schemeOf ep = []"
  shows "urlParseRequestURI lib ep \<noteq> None"
proof (cases "getscheme ep")
  case (Inl err)
  then show ?thesis using assms(1) by (simp add: urlParseRequestURI_def)
next
  case (Inr sr)
  obtain scheme rest where sr: "sr = (scheme, rest)" by (cases sr)
  from assms(3) Inr sr have sch: "scheme = []" by (simp add: schemeOf_def)
  with Inr sr have rest: "rest = ep" using getscheme_no_scheme [of ep rest] by simp
  define rest' where "rest' = (if rest \<noteq> [] \<and> last rest = CHR ''?'' \<and> count_list rest (CHR ''?'') = 1
                    then butlast rest else fst (splitAtByte rest (CHR ''?'') True))"
  have "take 1 rest' \<noteq> ''/''"
    using query_cut_prefix(2) [OF rest'_def] assms(2) rest by blast
  then show ?thesis
    using Inr sr sch assms(1) rest'_def [symmetric] by (simp add: urlParseRequestURI_def Let_def)
qed

lemma urlParseRequestURI_accepts_path:
  assumes "take 1 ep = ''/''" and "CHR ''%'' \<notin> set ep" and "\<not> stringContainsCTLByte ep"
  shows "urlParseRequestURI lib ep = None"
proof -
  from assms(1) obtain t where ep: "ep = CHR ''/'' # t" by (cases ep) auto
  have gs: "getscheme ep = Inr ([], ep)" unfolding ep by (rule getscheme_slash)
  define rest' where "rest' = (if ep \<noteq> [] \<and> last ep = CHR ''?'' \<and> count_list ep (CHR ''?'') = 1
                    then butlast ep else fst (splitAtByte ep (CHR ''?'') True))"
  have p: "take 1 rest' = ''/''" using query_cut_prefix(3) [OF rest'_def] assms(1) by blast
  have "CHR ''%'' \<notin> set rest'" using query_cut_prefix(1) [OF rest'_def] assms(2) by blast
  then have sp: "setPath rest' = None" by (rule setPath_no_percent)
  have ne: "ep \<noteq> []" "ep \<noteq> ''*''" using ep by simp_all
  show ?thesis
    using gs assms(3) ne p sp rest'_def [symmetric]
    by (simp add: urlParseRequestURI_def Let_def)
qed

lemma schemeOf_path: "take 1 ep = ''/'' \<Longrightarrow> schemeOf ep = []"
  by (cases ep) (auto simp add: schemeOf_def getscheme_slash)

section \<open>What the writer leaves in the file\<close>

lemma WriteString_regular:
  "fs (name f) = Some (Regular old) \<Longrightarrow> offset f \<le> length old \<Longrightarrow>
   WriteString (fs, f) s =
     (fs(name f \<mapsto> Regular (take (offset f) old @ s @ drop (offset f + length s) old)),
      f\<lparr>offset := offset f + length s\<rparr>)"
  by (simp add: WriteString_def)

lemma writeSecrets_regular:
  "fs (name f) = Some (Regular old) \<Longrightarrow> offset f \<le> length old \<Longrightarrow>
   writeSecrets encode secrets (fs, f) =
     (fs(name f \<mapsto> Regular (take (offset f) old @ concat (map (yamlLine encode) secrets)
          @ drop (offset f + length (concat (map (yamlLine encode) secrets))) old)),
      f\<lparr>offset := offset f + length (concat (map (yamlLine encode) secrets))\<rparr>)"
proof (induction secrets arbitrary: fs f old)
  case Nil
  then show ?case by (simp add: fun_upd_idem)
next
  case (Cons a secrets)
  let ?l = "yamlLine encode a"
  let ?old' = "take (offset f) old @ ?l @ drop (offset f + length ?l) old"
  let ?fs' = "fs(name f \<mapsto> Regular ?old')"
  let ?f' = "f\<lparr>offset := offset f + length ?l\<rparr>"
  have w: "WriteString (fs, f) ?l = (?fs', ?f')"
    using Cons.prems by (rule WriteString_regular)
  have a: "?fs' (name ?f') = Some (Regular ?old')" by simp
  have b: "offset ?f' \<le> length ?old'" using Cons.prems(2) by simp
  have step: "writeSecrets encode (a # secrets) (fs, f) = writeSecrets encode secrets (?fs', ?f')"
    using w by (simp add: yamlLine_def Let_def)
  have ih: "writeSecrets encode secrets (?fs', ?f') =
     (?fs'(name ?f' \<mapsto> Regular (take (offset ?f') ?old' @ concat (map (yamlLine encode) secrets)
          @ drop (offset ?f' + length (concat (map (yamlLine encode) secrets))) ?old')),
      ?f'\<lparr>offset := offset ?f' + length (concat (map (yamlLine encode) secrets))\<rparr>)"
    using a b by (rule Cons.IH)
  show ?case
    using Cons.prems(2) by (simp only: step ih) (auto simp add: min_absorb2 add.assoc add.commute add.left_commute fun_upd_def)
qed


lemma outputToYaml_existing:
  assumes "filename \<noteq> []" and "fs filename = Some (Regular old)"
  shows "outputToYaml fs filename section encode secrets =
     (fs(filename \<mapsto> Regular (document section encode secrets
           @ drop (length (document section encode secrets)) old)), None)"
proof -
  let ?h = "''---'' @ [LF] @ section @ '':'' @ [LF]"
  let ?f = "\<lparr>name = filename, offset = 0\<rparr>"
  let ?old' = "?h @ drop (length ?h) old"
  let ?f' = "\<lparr>name = filename, offset = length ?h\<rparr>"
  have op: "OpenFile fs filename = (fs, Inr ?f)"
    using assms by (simp add: OpenFile_def)
  have w: "WriteString (fs, ?f) ?h = (fs(filename \<mapsto> Regular ?old'), ?f')"
    using assms(2) by (simp add: WriteString_def)
  have a: "(fs(filename \<mapsto> Regular ?old')) (name ?f') = Some (Regular ?old')" by simp
  have b: "offset ?f' \<le> length ?old'" by simp
  note ws = writeSecrets_regular [where fs = "fs(filename \<mapsto> Regular ?old')" and f = ?f'
      and old = ?old' and encode = encode and secrets = secrets, OF a b]
  show ?thesis
    unfolding outputToYaml_def op
    by (simp only: prod.case sum.case w ws) (simp add: document_def add.commute)
qed

lemma outputToYaml_absent:
  assumes "filename \<noteq> []" and "fs filename = None"
  shows "outputToYaml fs filename section encode secrets =
     (fs(filename \<mapsto> Regular (document section encode secrets)), None)"
proof -
  let ?h = "''---'' @ [LF] @ section @ '':'' @ [LF]"
  let ?f = "\<lparr>name = filename, offset = 0\<rparr>"
  let ?fs = "fs(filename \<mapsto> Regular [])"
  let ?f' = "\<lparr>name = filename, offset = length ?h\<rparr>"
  have op: "OpenFile fs filename = (?fs, Inr ?f)"
    using assms by (simp add: OpenFile_def)
  have w: "WriteString (?fs, ?f) ?h = (fs(filename \<mapsto> Regular ?h), ?f')"
    by (simp add: WriteString_def)
  have a: "(fs(filename \<mapsto> Regular ?h)) (name ?f') = Some (Regular ?h)" by simp
  have b: "offset ?f' \<le> length ?h" by simp
  note ws = writeSecrets_regular [where fs = "fs(filename \<mapsto> Regular ?h)" and f = ?f'
      and old = ?h and encode = encode and secrets = secrets, OF a b]
  show ?thesis
    unfolding outputToYaml_def op
    by (simp only: prod.case sum.case w ws) (simp add: document_def)
qed

lemma outputToYaml_unopened:
  assumes "filename = [] \<or> fs filename = Some Directory"
  shows "outputToYaml fs filename section encode secrets = (fs, Some (OpenError filename))"
  using assms by (auto simp add: outputToYaml_def OpenFile_def)

section \<open>The stages of Exec\<close>

lemma convert_append:
  "convert kf vf passwords secrets =
     secrets @ map (\<lambda>pw. \<lparr>Key = String (FieldByName pw kf), Value = String (FieldByName pw vf)\<rparr>)
       (filter (\<lambda>pw. String (FieldByName pw kf) \<noteq> [] \<and> String (FieldByName pw kf) \<noteq> ''<invalid Value>''
                    \<and> String (FieldByName pw vf) \<noteq> [] \<and> String (FieldByName pw vf) \<noteq> ''<invalid Value>'')
          passwords)"
  by (induction passwords arbitrary: secrets) (simp_all add: Let_def)

lemma Exec_valid:
  assumes "P (ApiEndpoint (Config p)) = None" and "PasswordListId (Config p) \<noteq> 0"
    and "ApiKey (Config p) \<noteq> []" and "OutputFormat (Config p) = ''YAML''"
    and "G (request (Config p)) = Inr passwords"
  shows "Exec P G p w =
    (if NoSecretsFail (Config p)
        \<and> convert (KeyField (Config p)) (ValueField (Config p)) passwords [] = []
     then (w\<lparr>sent := sent w @ [request (Config p)]\<rparr>, Some NoSecretsRetrieved)
     else (w\<lparr>sent := sent w @ [request (Config p)],
             files := fst (outputToYaml (files w) (OutputPath (Config p)) (SectionName (Config p))
                (EncodeSecrets (Config p))
                (convert (KeyField (Config p)) (ValueField (Config p)) passwords []))\<rparr>, None))"
  using assms by (simp add: Exec_def getSecrets_def Let_def)

lemma Exec_fetch_error:
  assumes "P (ApiEndpoint (Config p)) = None" and "PasswordListId (Config p) \<noteq> 0"
    and "ApiKey (Config p) \<noteq> []" and "OutputFormat (Config p) = ''YAML''"
    and "G (request (Config p)) = Inl err"
  shows "Exec P G p w = (w\<lparr>sent := sent w @ [request (Config p)]\<rparr>, Some (FetchError err))"
  using assms by (simp add: Exec_def getSecrets_def Let_def)

lemma Exec_empty_guard:
  assumes "P (ApiEndpoint (Config p)) = None" and "PasswordListId (Config p) \<noteq> 0"
    and "ApiKey (Config p) \<noteq> []" and "OutputFormat (Config p) = ''YAML''"
    and "G (request (Config p)) = Inr passwords"
    and "convert (KeyField (Config p)) (ValueField (Config p)) passwords [] = []"
    and "NoSecretsFail (Config p)"
  shows "Exec P G p w = (w\<lparr>sent := sent w @ [request (Config p)]\<rparr>, Some NoSecretsRetrieved)"
    and "files (fst (Exec P G p w)) = files w"
  using Exec_valid [of P p G passwords w] assms by simp_all

lemma Exec_never_returns_OpenError: "snd (Exec P G p w) \<noteq> Some (OpenError path)"
proof (cases "P (ApiEndpoint (Config p)) = None \<and> PasswordListId (Config p) \<noteq> 0
    \<and> ApiKey (Config p) \<noteq> [] \<and> OutputFormat (Config p) = ''YAML''")
  case True
  show ?thesis
  proof (cases "G (request (Config p))")
    case (Inl err)
    show ?thesis using Exec_fetch_error [of P p G err w] True Inl by simp
  next
    case (Inr passwords)
    show ?thesis using Exec_valid [of P p G passwords w] True Inr by simp
  qed
next
  case False
  then show ?thesis by (auto simp add: Exec_def split: option.splits)
qed

lemma sent_Exec_valid:
  assumes "P (ApiEndpoint (Config p)) = None" and "PasswordListId (Config p) \<noteq> 0"
    and "ApiKey (Config p) \<noteq> []" and "OutputFormat (Config p) = ''YAML''"
  shows "sent (fst (Exec P G p w)) = sent w @ [request (Config p)]"
proof (cases "G (request (Config p))")
  case (Inl err)
  show ?thesis using Exec_fetch_error [of P p G err w] assms Inl by simp
next
  case (Inr passwords)
  show ?thesis using Exec_valid [of P p G passwords w] assms Inr by simp
qed

lemma files_Exec_valid:
  assumes "P (ApiEndpoint (Config p)) = None" and "PasswordListId (Config p) \<noteq> 0"
    and "ApiKey (Config p) \<noteq> []" and "OutputFormat (Config p) = ''YAML''"
    and "G (request (Config p)) = Inr passwords"
    and "convert (KeyField (Config p)) (ValueField (Config p)) passwords [] = secrets"
    and "secrets \<noteq> [] \<or> \<not> NoSecretsFail (Config p)"
  shows "Exec P G p w =
     (w\<lparr>sent := sent w @ [request (Config p)],
        files := fst (outputToYaml (files w) (OutputPath (Config p)) (SectionName (Config p))
                (EncodeSecrets (Config p)) secrets)\<rparr>, None)"
  using Exec_valid [of P p G passwords w] assms by auto

lemma Trim_space: "Trim s '' '' = dropWhile (\<lambda>c. c = SPACE) (rev (dropWhile (\<lambda>c. c = SPACE) (rev s)))"
  by (simp add: Trim_def TrimLeft_byte TrimRight_byte)

lemma outputToYaml_opened:
  assumes "filename \<noteq> []" and "fs filename \<noteq> Some Directory"
  shows "\<exists>rest. outputToYaml fs filename section encode secrets =
     (fs(filename \<mapsto> Regular (document section encode secrets @ rest)), None)"
proof (cases "fs filename")
  case None
  have "outputToYaml fs filename section encode secrets =
     (fs(filename \<mapsto> Regular (document section encode secrets @ [])), None)"
    using outputToYaml_absent [of filename fs] assms(1) None by simp
  then show ?thesis by (rule exI)
next
  case (Some n)
  with assms(2) obtain old where old: "fs filename = Some (Regular old)" by (cases n) auto
  have "outputToYaml fs filename section encode secrets =
     (fs(filename \<mapsto> Regular (document section encode secrets
        @ drop (length (document section encode secrets)) old)), None)"
    using outputToYaml_existing [of filename fs old] assms(1) old by simp
  then show ?thesis by (rule exI)
qed

lemma String_non_string_field:
  assumes "f \<in> {''PasswordID'', ''AccountTypeID'', ''AllowExport''}"
  shows "String (FieldByName r f) = (if f = ''AllowExport'' then ''<bool Value>'' else ''<int Value>'')"
proof -
  from assms have "f = ''PasswordID'' \<or> f = ''AccountTypeID'' \<or> f = ''AllowExport''" by simp
  then show ?thesis by (elim disjE) (simp_all add: FieldByName_def)
qed

lemma placeholder_kept:
  assumes "ph = ''<int Value>'' \<or> ph = ''<bool Value>''"
  shows "ph \<noteq> []" and "ph \<noteq> ''<invalid Value>''" and "Trim ph '' '' = ph"
  using assms by (auto simp add: Trim_def)

lemma convert_single:
  assumes "k \<noteq> []" "k \<noteq> ''<invalid Value>''" "v \<noteq> []" "v \<noteq> ''<invalid Value>''"
    and "String (FieldByName r f) = k" and "String (FieldByName r g) = v"
  shows "convert f g [r] [] = [\<lparr>Key = k, Value = v\<rparr>]"
  using assms by (simp add: Let_def)

lemma example_run_on_fresh_path:
  assumes "P (ApiEndpoint (Config p)) = None" and "PasswordListId (Config p) \<noteq> 0"
    and "ApiKey (Config p) \<noteq> []"
    and "KeyField (Config p) = ''Title''" and "ValueField (Config p) = ''Password''"
    and "OutputFormat (Config p) = ''YAML''" and "SectionName (Config p) = ''secrets''"
    and "OutputPath (Config p) \<noteq> []" and "files w (OutputPath (Config p)) = None"
    and "G (request (Config p)) = Inr [r1, r2]"
    and "Title r1 = ''db''" and "Password r1 = ''p@ss''"
    and "Title r2 = []" and "Password r2 = ''x''"
  shows "snd (Exec P G p w) = None
    \<and> files (fst (Exec P G p w)) (OutputPath (Config p)) =
        Some (Regular (''---'' @ [LF] @ ''secrets:'' @ [LF] @
          (if EncodeSecrets (Config p)
           then ''  db: '' @ [APOS] @ ''cEBzcw=='' @ [APOS, LF]
           else ''  db: '' @ [APOS] @ ''p@ss'' @ [APOS, LF])))"
proof -
  have conv: "convert (KeyField (Config p)) (ValueField (Config p)) [r1, r2] []
      = [\<lparr>Key = ''db'', Value = ''p@ss''\<rparr>]"
    using assms(4,5,11-14) by (simp add: FieldByName_def)
  have ex: "Exec P G p w =
     (w\<lparr>sent := sent w @ [request (Config p)],
        files := fst (outputToYaml (files w) (OutputPath (Config p)) (SectionName (Config p))
                (EncodeSecrets (Config p)) [\<lparr>Key = ''db'', Value = ''p@ss''\<rparr>])\<rparr>, None)"
    using files_Exec_valid [of P p G "[r1, r2]" "[\<lparr>Key = ''db'', Value = ''p@ss''\<rparr>]" w]
      assms(1-3,6,10) conv by simp
  have out: "outputToYaml (files w) (OutputPath (Config p)) (SectionName (Config p))
                (EncodeSecrets (Config p)) [\<lparr>Key = ''db'', Value = ''p@ss''\<rparr>]
     = ((files w)(OutputPath (Config p) \<mapsto> Regular (document (SectionName (Config p))
           (EncodeSecrets (Config p)) [\<lparr>Key = ''db'', Value = ''p@ss''\<rparr>])), None)"
    using assms(8,9) by (rule outputToYaml_absent)
  have doc: "document ''secrets'' e [\<lparr>Key = ''db'', Value = ''p@ss''\<rparr>] =
      ''---'' @ [LF] @ ''secrets:'' @ [LF] @
          (if e then ''  db: '' @ [APOS] @ ''cEBzcw=='' @ [APOS, LF]
           else ''  db: '' @ [APOS] @ ''p@ss'' @ [APOS, LF])" for e
    by (simp add: document_def yamlLine_def Trim_def enc6_def encodeStd_def)
  show ?thesis
    unfolding ex out using assms(7) doc [of "EncodeSecrets (Config p)"] by simp
qed

lemma Exec_validation_any_parser:
  "((\<exists>e. snd (Exec P G p w) = Some e
        \<and> e \<in> range UrlError \<union> {ListIdNotValid, ApiKeyMandatory, FormatNotSupported})
     \<longleftrightarrow> (P (ApiEndpoint (Config p)) \<noteq> None \<or> PasswordListId (Config p) = 0
          \<or> ApiKey (Config p) = [] \<or> OutputFormat (Config p) \<noteq> ''YAML''))
   \<and> (\<forall>m. P (ApiEndpoint (Config p)) = Some m \<longrightarrow> Exec P G p w = (w, Some (UrlError m)))
   \<and> (P (ApiEndpoint (Config p)) = None \<and> PasswordListId (Config p) = 0
        \<longrightarrow> Exec P G p w = (w, Some ListIdNotValid))
   \<and> (P (ApiEndpoint (Config p)) = None \<and> PasswordListId (Config p) \<noteq> 0
        \<and> ApiKey (Config p) = []
        \<longrightarrow> Exec P G p w = (w, Some ApiKeyMandatory))
   \<and> (P (ApiEndpoint (Config p)) = None \<and> PasswordListId (Config p) \<noteq> 0
        \<and> ApiKey (Config p) \<noteq> [] \<and> OutputFormat (Config p) \<noteq> ''YAML''
        \<longrightarrow> Exec P G p w = (w, Some FormatNotSupported))"
proof -
  have pass: "\<not> (\<exists>e. snd (Exec P G p w) = Some e
        \<and> e \<in> range UrlError \<union> {ListIdNotValid, ApiKeyMandatory, FormatNotSupported})"
    if "P (ApiEndpoint (Config p)) = None" "PasswordListId (Config p) \<noteq> 0"
       "ApiKey (Config p) \<noteq> []" "OutputFormat (Config p) = ''YAML''"
  proof (cases "G (request (Config p))")
    case (Inl err)
    show ?thesis using Exec_fetch_error [of P p G err w] that Inl by auto
  next
    case (Inr passwords)
    show ?thesis using Exec_valid [of P p G passwords w] that Inr by auto
  qed
  have url: "Exec P G p w = (w, Some (UrlError m))" if "P (ApiEndpoint (Config p)) = Some m" for m
    using that by (simp add: Exec_def)
  have lid: "Exec P G p w = (w, Some ListIdNotValid)"
    if "P (ApiEndpoint (Config p)) = None" "PasswordListId (Config p) = 0"
    using that by (simp add: Exec_def)
  have key: "Exec P G p w = (w, Some ApiKeyMandatory)"
    if "P (ApiEndpoint (Config p)) = None" "PasswordListId (Config p) \<noteq> 0" "ApiKey (Config p) = []"
    using that by (simp add: Exec_def)
  have fmt: "Exec P G p w = (w, Some FormatNotSupported)"
    if "P (ApiEndpoint (Config p)) = None" "PasswordListId (Config p) \<noteq> 0"
       "ApiKey (Config p) \<noteq> []" "OutputFormat (Config p) \<noteq> ''YAML''"
    using that by (simp add: Exec_def)
  have fails: "\<exists>e. snd (Exec P G p w) = Some e
        \<and> e \<in> range UrlError \<union> {ListIdNotValid, ApiKeyMandatory, FormatNotSupported}"
    if "P (ApiEndpoint (Config p)) \<noteq> None \<or> PasswordListId (Config p) = 0
          \<or> ApiKey (Config p) = [] \<or> OutputFormat (Config p) \<noteq> ''YAML''"
  proof (cases "P (ApiEndpoint (Config p))")
    case (Some m)
    show ?thesis unfolding url [OF Some] by simp
  next
    case None
    show ?thesis
    proof (cases "PasswordListId (Config p) = 0")
      case True
      show ?thesis unfolding lid [OF None True] by simp
    next
      case id: False
      show ?thesis
      proof (cases "ApiKey (Config p) = []")
        case True
        show ?thesis unfolding key [OF None id True] by simp
      next
        case k: False
        from that None id k have f: "OutputFormat (Config p) \<noteq> ''YAML''" by simp
        show ?thesis unfolding fmt [OF None id k f] by simp
      qed
    qed
  qed
  show ?thesis
    using pass fails url lid key fmt by blast
qed

lemma Exec_rejected_endpoint:
  assumes "P (ApiEndpoint (Config p)) = Some m"
  shows "Exec P G p w = (w, Some (UrlError m))
       \<and> sent (fst (Exec P G p w)) = sent w
       \<and> files (fst (Exec P G p w)) = files w
       \<and> (\<forall>G'. Exec P G' p w = Exec P G p w)"
  using assms by (simp add: Exec_def)

lemmas parser_eval = urlParseRequestURI_def exampleNetURL_def getscheme_def isLetter_def isDigit_def
  splitAtByte_def schemeOf_def

section \<open>The claims\<close>

text \<open>
  C1. The claim wants an error from \<^verbatim>\<open>Exec\<close> when the output file cannot be opened.
  \<^verbatim>\<open>outputToYaml\<close> does return the error of \<^verbatim>\<open>os.OpenFile\<close>, but \<^verbatim>\<open>Exec\<close> calls it as
  a statement and returns \<^verbatim>\<open>nil\<close>. Evaluated here: an output path that is a directory,
  and the empty output path, both with a configuration that passes the validation and a
  response that yields one secret.
\<close>

theorem open_error_is_dropped:
  "outputToYaml [''/out'' \<mapsto> Directory] ''/out'' ''secrets'' False [\<lparr>Key = ''db'', Value = ''p@ss''\<rparr>]
     = ([''/out'' \<mapsto> Directory], Some (OpenError ''/out''))
   \<and> snd (Exec parseNonEmpty (\<lambda>r. Inr [zeroPassword\<lparr>Title := ''db'', Password := ''p@ss''\<rparr>])
        \<lparr>Config = exampleConfig\<lparr>OutputPath := ''/out''\<rparr>\<rparr>
        \<lparr>files = [''/out'' \<mapsto> Directory], sent = []\<rparr>) = None
   \<and> snd (outputToYaml Map.empty [] ''secrets'' False [\<lparr>Key = ''db'', Value = ''p@ss''\<rparr>])
     = Some (OpenError [])
   \<and> snd (Exec parseNonEmpty (\<lambda>r. Inr [zeroPassword\<lparr>Title := ''db'', Password := ''p@ss''\<rparr>])
        \<lparr>Config = exampleConfig\<lparr>OutputPath := []\<rparr>\<rparr> emptyWorld) = None"
  by (simp add: outputToYaml_def OpenFile_def Exec_def getSecrets_def parseNonEmpty_def
      exampleConfig_def emptyWorld_def)

text \<open>
  C2. The claim wants the old content of the output file gone after the run. The file is
  opened without \<^verbatim>\<open>O_TRUNC\<close> and written from offset 0, so what the old content has
  beyond the new bytes stays. Evaluated here: the file holds the output of an earlier run
  with the two secrets \<^verbatim>\<open>db\<close> and \<^verbatim>\<open>old\<close>, the response now has \<^verbatim>\<open>db\<close> only; after
  the run the file still holds the line of \<^verbatim>\<open>old\<close>.
\<close>

theorem stale_tail_is_kept:
  "files (fst (Exec parseNonEmpty (\<lambda>r. Inr [zeroPassword\<lparr>Title := ''db'', Password := ''p@ss''\<rparr>])
        \<lparr>Config = exampleConfig\<rparr>
        \<lparr>files = [''out.yml'' \<mapsto> Regular (''---'' @ [LF] @ ''secrets:'' @ [LF]
              @ ''  db: '' @ [APOS] @ ''p@ss'' @ [APOS, LF]
              @ ''  old: '' @ [APOS] @ ''gone'' @ [APOS, LF])],
         sent = []\<rparr>)) ''out.yml''
     = Some (Regular (''---'' @ [LF] @ ''secrets:'' @ [LF]
              @ ''  db: '' @ [APOS] @ ''p@ss'' @ [APOS, LF]
              @ ''  old: '' @ [APOS] @ ''gone'' @ [APOS, LF]))
   \<and> snd (Exec parseNonEmpty (\<lambda>r. Inr [zeroPassword\<lparr>Title := ''db'', Password := ''p@ss''\<rparr>])
        \<lparr>Config = exampleConfig\<rparr>
        \<lparr>files = [''out.yml'' \<mapsto> Regular (''---'' @ [LF] @ ''secrets:'' @ [LF]
              @ ''  db: '' @ [APOS] @ ''p@ss'' @ [APOS, LF]
              @ ''  old: '' @ [APOS] @ ''gone'' @ [APOS, LF])],
         sent = []\<rparr>) = None"
  by (simp add: outputToYaml_def OpenFile_def WriteString_def Exec_def getSecrets_def
      parseNonEmpty_def exampleConfig_def zeroPassword_def FieldByName_def Trim_def)

text \<open>
  C3. Given the passwords of the response, \<^verbatim>\<open>getSecrets\<close> returns no error, and its
  secrets are those of the passwords on which both the configured key field and the
  configured value field give a string that is neither empty nor \<^verbatim>\<open>"<invalid Value>"\<close>,
  one secret per such password, in the order of the response.
\<close>

theorem getSecrets_filters_in_order:
  assumes "G (request (Config p)) = Inr passwords"
  shows "snd (getSecrets G p w) =
    Inr (map (\<lambda>pw. \<lparr>Key = String (FieldByName pw (KeyField (Config p))),
                     Value = String (FieldByName pw (ValueField (Config p)))\<rparr>)
          (filter (\<lambda>pw. String (FieldByName pw (KeyField (Config p))) \<noteq> []
                     \<and> String (FieldByName pw (KeyField (Config p))) \<noteq> ''<invalid Value>''
                     \<and> String (FieldByName pw (ValueField (Config p))) \<noteq> []
                     \<and> String (FieldByName pw (ValueField (Config p))) \<noteq> ''<invalid Value>'')
             passwords))"
  using assms by (simp add: getSecrets_def Let_def convert_append)

theorem getSecrets_filters_in_order_witness:
  "snd (getSecrets
      (\<lambda>r. Inr [zeroPassword\<lparr>Title := ''a'', Password := ''1''\<rparr>,
                zeroPassword\<lparr>Title := ''b''\<rparr>,
                zeroPassword\<lparr>Password := ''3''\<rparr>,
                zeroPassword\<lparr>Title := ''<invalid Value>'', Password := ''4''\<rparr>,
                zeroPassword\<lparr>Title := ''e'', Password := ''5''\<rparr>])
      \<lparr>Config = exampleConfig\<rparr> emptyWorld)
   = Inr [\<lparr>Key = ''a'', Value = ''1''\<rparr>, \<lparr>Key = ''e'', Value = ''5''\<rparr>]"
  using getSecrets_filters_in_order [of
      "\<lambda>r. Inr [zeroPassword\<lparr>Title := ''a'', Password := ''1''\<rparr>,
                zeroPassword\<lparr>Title := ''b''\<rparr>,
                zeroPassword\<lparr>Password := ''3''\<rparr>,
                zeroPassword\<lparr>Title := ''<invalid Value>'', Password := ''4''\<rparr>,
                zeroPassword\<lparr>Title := ''e'', Password := ''5''\<rparr>]"
      "\<lparr>Config = exampleConfig\<rparr>" _ emptyWorld]
  by (simp add: exampleConfig_def zeroPassword_def FieldByName_def)

text \<open>
  C4. The claim gives the content of the file for its configuration and its response of
  two passwords, whatever the output path held before. On a path that names no file the
  content is the claimed one (\<open>example_run_on_fresh_path\<close>). Evaluated here: the same
  run over an output file that an earlier run left with one longer line. \<^verbatim>\<open>Exec\<close> returns
  no error, and the file is the claimed content followed by the end of the old line, with
  and without encoding: the file is opened without \<^verbatim>\<open>O_TRUNC\<close>.
\<close>

theorem example_run_over_longer_file:
  "files (fst (Exec (urlParseRequestURI exampleNetURL)
        (\<lambda>r. Inr [zeroPassword\<lparr>Title := ''db'', Password := ''p@ss''\<rparr>, zeroPassword\<lparr>Password := ''x''\<rparr>])
        \<lparr>Config = exampleConfig\<rparr>
        \<lparr>files = [''out.yml'' \<mapsto> Regular (''---'' @ [LF] @ ''secrets:'' @ [LF]
              @ ''  database: '' @ [APOS] @ ''p@ssw0rd'' @ [APOS, LF])],
         sent = []\<rparr>)) ''out.yml''
     = Some (Regular (''---'' @ [LF] @ ''secrets:'' @ [LF] @ ''  db: '' @ [APOS] @ ''p@ss'' @ [APOS, LF]
              @ ''p@ssw0rd'' @ [APOS, LF]))
   \<and> files (fst (Exec (urlParseRequestURI exampleNetURL)
        (\<lambda>r. Inr [zeroPassword\<lparr>Title := ''db'', Password := ''p@ss''\<rparr>, zeroPassword\<lparr>Password := ''x''\<rparr>])
        \<lparr>Config = exampleConfig\<lparr>EncodeSecrets := True\<rparr>\<rparr>
        \<lparr>files = [''out.yml'' \<mapsto> Regular (''---'' @ [LF] @ ''secrets:'' @ [LF]
              @ ''  database: '' @ [APOS] @ ''p@ssw0rd'' @ [APOS, LF])],
         sent = []\<rparr>)) ''out.yml''
     = Some (Regular (''---'' @ [LF] @ ''secrets:'' @ [LF] @ ''  db: '' @ [APOS] @ ''cEBzcw=='' @ [APOS, LF]
              @ ''w0rd'' @ [APOS, LF]))
   \<and> snd (Exec (urlParseRequestURI exampleNetURL)
        (\<lambda>r. Inr [zeroPassword\<lparr>Title := ''db'', Password := ''p@ss''\<rparr>, zeroPassword\<lparr>Password := ''x''\<rparr>])
        \<lparr>Config = exampleConfig\<rparr>
        \<lparr>files = [''out.yml'' \<mapsto> Regular (''---'' @ [LF] @ ''secrets:'' @ [LF]
              @ ''  database: '' @ [APOS] @ ''p@ssw0rd'' @ [APOS, LF])],
         sent = []\<rparr>) = None"
  by (simp add: parser_eval outputToYaml_def OpenFile_def WriteString_def Exec_def getSecrets_def
      exampleConfig_def zeroPassword_def FieldByName_def Trim_def enc6_def encodeStd_def)

text \<open>
  C5, as amended. Whenever the output file can be opened, it starts with the header and
  one line per secret, in order; the key and the value of a line are those of the secret
  run through \<^verbatim>\<open>strings.Trim(_, " ")\<close>, the value encoded after the trimming when
  encoding is on. That trimming removes the leading and the trailing space characters
  (byte 0x20) and nothing else: tabs and line feeds stay.
\<close>

theorem lines_hold_space_trimmed_fields:
  assumes "filename \<noteq> []" and "fs filename \<noteq> Some Directory"
  shows "(\<exists>rest. fst (outputToYaml fs filename section encode secrets) filename =
      Some (Regular (''---'' @ [LF] @ section @ '':'' @ [LF]
        @ concat (map (\<lambda>secret. ''  '' @ Trim (Key secret) '' '' @ '': '' @ [APOS]
                    @ (if encode then EncodeToString (Trim (Value secret) '' '')
                       else Trim (Value secret) '' '')
                    @ [APOS, LF]) secrets)
        @ rest)))
    \<and> (\<forall>s. Trim s '' '' = dropWhile (\<lambda>c. c = SPACE) (rev (dropWhile (\<lambda>c. c = SPACE) (rev s))))"
proof -
  obtain rest where "outputToYaml fs filename section encode secrets =
     (fs(filename \<mapsto> Regular (document section encode secrets @ rest)), None)"
    using outputToYaml_opened [of filename fs] assms by blast
  then have "fst (outputToYaml fs filename section encode secrets) filename =
      Some (Regular (document section encode secrets @ rest))" by simp
  moreover have "document section encode secrets = ''---'' @ [LF] @ section @ '':'' @ [LF]
        @ concat (map (\<lambda>secret. ''  '' @ Trim (Key secret) '' '' @ '': '' @ [APOS]
                    @ (if encode then EncodeToString (Trim (Value secret) '' '')
                       else Trim (Value secret) '' '')
                    @ [APOS, LF]) secrets)"
    unfolding document_def yamlLine_def by (rule refl)
  ultimately show ?thesis using Trim_space by auto
qed

theorem lines_hold_space_trimmed_fields_witness:
  "fst (outputToYaml Map.empty ''out.yml'' ''secrets'' True
          [\<lparr>Key = ''  db '', Value = '' p@ss  ''\<rparr>, \<lparr>Key = [TAB] @ ''k '', Value = '' v'' @ [LF]\<rparr>]) ''out.yml''
     = Some (Regular (''---'' @ [LF] @ ''secrets:'' @ [LF]
          @ ''  db: '' @ [APOS] @ ''cEBzcw=='' @ [APOS, LF]
          @ ''  '' @ [TAB] @ ''k: '' @ [APOS] @ ''dgo='' @ [APOS, LF]))"
proof -
  obtain rest where r: "fst (outputToYaml Map.empty ''out.yml'' ''secrets'' True
          [\<lparr>Key = ''  db '', Value = '' p@ss  ''\<rparr>, \<lparr>Key = [TAB] @ ''k '', Value = '' v'' @ [LF]\<rparr>]) ''out.yml''
     = Some (Regular (''---'' @ [LF] @ ''secrets:'' @ [LF]
          @ ''  db: '' @ [APOS] @ ''cEBzcw=='' @ [APOS, LF]
          @ ''  '' @ [TAB] @ ''k: '' @ [APOS] @ ''dgo='' @ [APOS, LF] @ rest))"
    using lines_hold_space_trimmed_fields [of "''out.yml''" Map.empty "''secrets''" True
        "[\<lparr>Key = ''  db '', Value = '' p@ss  ''\<rparr>, \<lparr>Key = [TAB] @ ''k '', Value = '' v'' @ [LF]\<rparr>]"]
    by (auto simp add: enc6_def encodeStd_def)
  have "fst (outputToYaml Map.empty ''out.yml'' ''secrets'' True
          [\<lparr>Key = ''  db '', Value = '' p@ss  ''\<rparr>, \<lparr>Key = [TAB] @ ''k '', Value = '' v'' @ [LF]\<rparr>]) ''out.yml''
     = Some (Regular (''---'' @ [LF] @ ''secrets:'' @ [LF]
          @ ''  db: '' @ [APOS] @ ''cEBzcw=='' @ [APOS, LF]
          @ ''  '' @ [TAB] @ ''k: '' @ [APOS] @ ''dgo='' @ [APOS, LF]))"
    by (simp add: outputToYaml_def OpenFile_def WriteString_def Trim_def enc6_def encodeStd_def)
  with r show ?thesis by simp
qed

text \<open>
  C5, as stated, fails: a key that starts with a tab and a value that ends with a line
  feed reach the file with the tab and the line feed, only the spaces around them are
  gone.
\<close>

theorem trim_counterexample:
  "fst (outputToYaml Map.empty ''out.yml'' ''secrets'' False
          [\<lparr>Key = [TAB] @ ''k '', Value = '' v'' @ [LF]\<rparr>]) ''out.yml''
     = Some (Regular (''---'' @ [LF] @ ''secrets:'' @ [LF]
          @ ''  '' @ [TAB] @ ''k: '' @ [APOS] @ ''v'' @ [LF] @ [APOS, LF]))
   \<and> fst (outputToYaml Map.empty ''out.yml'' ''secrets'' False
          [\<lparr>Key = [TAB] @ ''k '', Value = '' v'' @ [LF]\<rparr>]) ''out.yml''
     \<noteq> Some (Regular (''---'' @ [LF] @ ''secrets:'' @ [LF]
          @ ''  k: '' @ [APOS] @ ''v'' @ [APOS, LF]))"
  by (simp add: outputToYaml_def OpenFile_def WriteString_def Trim_def)

text \<open>
  C6. With the fail-on-empty flag set and an empty response, \<^verbatim>\<open>Exec\<close> returns the error
  of the guard and the files are as before; with the flag unset and no file at the output
  path, the file holds the header and the section only. With the flag unset and an
  output file left by an earlier run, \<^verbatim>\<open>Exec\<close> returns no error and the file still holds
  the earlier secret after the header: it does not hold the header and the empty section
  only, as the claim wants.
\<close>

theorem empty_run_keeps_old_secrets:
  "Exec parseNonEmpty (\<lambda>r. Inr []) \<lparr>Config = exampleConfig\<lparr>NoSecretsFail := True\<rparr>\<rparr> emptyWorld
     = (emptyWorld\<lparr>sent := [request (exampleConfig\<lparr>NoSecretsFail := True\<rparr>)]\<rparr>, Some NoSecretsRetrieved)
   \<and> files (fst (Exec parseNonEmpty (\<lambda>r. Inr []) \<lparr>Config = exampleConfig\<rparr> emptyWorld)) ''out.yml''
     = Some (Regular (''---'' @ [LF] @ ''secrets:'' @ [LF]))
   \<and> snd (Exec parseNonEmpty (\<lambda>r. Inr []) \<lparr>Config = exampleConfig\<rparr>
        \<lparr>files = [''out.yml'' \<mapsto> Regular (''---'' @ [LF] @ ''secrets:'' @ [LF]
              @ ''  db: '' @ [APOS] @ ''p@ss'' @ [APOS, LF])],
         sent = []\<rparr>) = None
   \<and> files (fst (Exec parseNonEmpty (\<lambda>r. Inr []) \<lparr>Config = exampleConfig\<rparr>
        \<lparr>files = [''out.yml'' \<mapsto> Regular (''---'' @ [LF] @ ''secrets:'' @ [LF]
              @ ''  db: '' @ [APOS] @ ''p@ss'' @ [APOS, LF])],
         sent = []\<rparr>)) ''out.yml''
     = Some (Regular (''---'' @ [LF] @ ''secrets:'' @ [LF]
              @ ''  db: '' @ [APOS] @ ''p@ss'' @ [APOS, LF]))"
  by (simp add: outputToYaml_def OpenFile_def WriteString_def Exec_def getSecrets_def
      parseNonEmpty_def exampleConfig_def emptyWorld_def)

text \<open>
  C7, as amended. \<^verbatim>\<open>Exec\<close> returns one of the four validation errors exactly when
  \<^verbatim>\<open>url.ParseRequestURI\<close> returns an error for the endpoint, the list identifier is zero,
  the API key is empty or the format is not \<^verbatim>\<open>YAML\<close>. The error is that of the first check
  that fails, in this order, and the world is returned as it was: nothing is sent and no
  file is touched. The parser refuses the empty endpoint and every endpoint other than
  \<^verbatim>\<open>*\<close> that has neither a scheme nor a leading slash; it accepts every endpoint that
  starts with a slash and holds no \<^verbatim>\<open>%\<close> and no control byte, and such an endpoint has
  no scheme: it is an absolute path, not an absolute URL.
\<close>

theorem Exec_validation_order:
  "((\<exists>e. snd (Exec (urlParseRequestURI lib) G p w) = Some e
        \<and> e \<in> range UrlError \<union> {ListIdNotValid, ApiKeyMandatory, FormatNotSupported})
     \<longleftrightarrow> (urlParseRequestURI lib (ApiEndpoint (Config p)) \<noteq> None \<or> PasswordListId (Config p) = 0
          \<or> ApiKey (Config p) = [] \<or> OutputFormat (Config p) \<noteq> ''YAML''))
   \<and> (\<forall>m. urlParseRequestURI lib (ApiEndpoint (Config p)) = Some m
        \<longrightarrow> Exec (urlParseRequestURI lib) G p w = (w, Some (UrlError m)))
   \<and> (urlParseRequestURI lib (ApiEndpoint (Config p)) = None \<and> PasswordListId (Config p) = 0
        \<longrightarrow> Exec (urlParseRequestURI lib) G p w = (w, Some ListIdNotValid))
   \<and> (urlParseRequestURI lib (ApiEndpoint (Config p)) = None \<and> PasswordListId (Config p) \<noteq> 0
        \<and> ApiKey (Config p) = []
        \<longrightarrow> Exec (urlParseRequestURI lib) G p w = (w, Some ApiKeyMandatory))
   \<and> (urlParseRequestURI lib (ApiEndpoint (Config p)) = None \<and> PasswordListId (Config p) \<noteq> 0
        \<and> ApiKey (Config p) \<noteq> [] \<and> OutputFormat (Config p) \<noteq> ''YAML''
        \<longrightarrow> Exec (urlParseRequestURI lib) G p w = (w, Some FormatNotSupported))
   \<and> (\<forall>ep. ep \<noteq> ''*'' \<and> take 1 ep \<noteq> ''/'' \<and> schemeOf ep = []
        \<longrightarrow> urlParseRequestURI lib ep \<noteq> None)
   \<and> (\<forall>ep. take 1 ep = ''/'' \<and> CHR ''%'' \<notin> set ep \<and> \<not> stringContainsCTLByte ep
        \<longrightarrow> schemeOf ep = [] \<and> urlParseRequestURI lib ep = None)"
proof -
  note order = Exec_validation_any_parser [of "urlParseRequestURI lib" G p w]
  have rej: "\<forall>ep. ep \<noteq> ''*'' \<and> take 1 ep \<noteq> ''/'' \<and> schemeOf ep = []
        \<longrightarrow> urlParseRequestURI lib ep \<noteq> None"
    using urlParseRequestURI_rejects by blast
  have acc: "\<forall>ep. take 1 ep = ''/'' \<and> CHR ''%'' \<notin> set ep \<and> \<not> stringContainsCTLByte ep
        \<longrightarrow> schemeOf ep = [] \<and> urlParseRequestURI lib ep = None"
    using urlParseRequestURI_accepts_path schemeOf_path by blast
  from order rej acc show ?thesis by (intro conjI) blast+
qed

theorem Exec_validation_order_witness:
  "Exec (urlParseRequestURI exampleNetURL) (\<lambda>r. Inr []) \<lparr>Config = exampleConfig\<lparr>ApiEndpoint := []\<rparr>\<rparr> emptyWorld
     = (emptyWorld, Some (UrlError ''empty url''))
   \<and> Exec (urlParseRequestURI exampleNetURL) (\<lambda>r. Inr [])
        \<lparr>Config = exampleConfig\<lparr>ApiEndpoint := ''ps.example.com''\<rparr>\<rparr> emptyWorld
     = (emptyWorld, Some (UrlError ''invalid URI for request''))
   \<and> Exec (urlParseRequestURI exampleNetURL) (\<lambda>r. Inr [])
        \<lparr>Config = exampleConfig\<lparr>PasswordListId := 0, ApiKey := []\<rparr>\<rparr> emptyWorld
     = (emptyWorld, Some ListIdNotValid)
   \<and> Exec (urlParseRequestURI exampleNetURL) (\<lambda>r. Inr [])
        \<lparr>Config = exampleConfig\<lparr>ApiKey := [], OutputFormat := ''JSON''\<rparr>\<rparr> emptyWorld
     = (emptyWorld, Some ApiKeyMandatory)
   \<and> Exec (urlParseRequestURI exampleNetURL) (\<lambda>r. Inr [])
        \<lparr>Config = exampleConfig\<lparr>OutputFormat := ''yaml''\<rparr>\<rparr> emptyWorld
     = (emptyWorld, Some FormatNotSupported)
   \<and> urlParseRequestURI exampleNetURL ''/foo'' = None"
proof -
  let ?G = "\<lambda>r :: Request. Inr [] :: string + PasswordList list"
  let ?P = "urlParseRequestURI exampleNetURL"
  have ok: "?P ''https://ps.example.com'' = None" by (simp add: parser_eval)
  have e1: "?P [] = Some ''empty url''" by (simp add: parser_eval)
  have e2: "?P ''ps.example.com'' = Some ''invalid URI for request''" by (simp add: parser_eval)
  have a: "Exec ?P ?G \<lparr>Config = exampleConfig\<lparr>ApiEndpoint := []\<rparr>\<rparr> emptyWorld
     = (emptyWorld, Some (UrlError ''empty url''))"
    using Exec_validation_order [of exampleNetURL ?G "\<lparr>Config = exampleConfig\<lparr>ApiEndpoint := []\<rparr>\<rparr>" emptyWorld] e1
    by (simp add: exampleConfig_def)
  have a': "Exec ?P ?G \<lparr>Config = exampleConfig\<lparr>ApiEndpoint := ''ps.example.com''\<rparr>\<rparr> emptyWorld
     = (emptyWorld, Some (UrlError ''invalid URI for request''))"
    using Exec_validation_order [of exampleNetURL ?G
        "\<lparr>Config = exampleConfig\<lparr>ApiEndpoint := ''ps.example.com''\<rparr>\<rparr>" emptyWorld] e2
    by (simp add: exampleConfig_def)
  have b: "Exec ?P ?G \<lparr>Config = exampleConfig\<lparr>PasswordListId := 0, ApiKey := []\<rparr>\<rparr> emptyWorld
     = (emptyWorld, Some ListIdNotValid)"
    using Exec_validation_order [of exampleNetURL ?G
        "\<lparr>Config = exampleConfig\<lparr>PasswordListId := 0, ApiKey := []\<rparr>\<rparr>" emptyWorld] ok
    by (simp add: exampleConfig_def)
  have c: "Exec ?P ?G \<lparr>Config = exampleConfig\<lparr>ApiKey := [], OutputFormat := ''JSON''\<rparr>\<rparr> emptyWorld
     = (emptyWorld, Some ApiKeyMandatory)"
    using Exec_validation_order [of exampleNetURL ?G
        "\<lparr>Config = exampleConfig\<lparr>ApiKey := [], OutputFormat := ''JSON''\<rparr>\<rparr>" emptyWorld] ok
    by (simp add: exampleConfig_def)
  have d: "Exec ?P ?G \<lparr>Config = exampleConfig\<lparr>OutputFormat := ''yaml''\<rparr>\<rparr> emptyWorld
     = (emptyWorld, Some FormatNotSupported)"
    using Exec_validation_order [of exampleNetURL ?G
        "\<lparr>Config = exampleConfig\<lparr>OutputFormat := ''yaml''\<rparr>\<rparr>" emptyWorld] ok
    by (simp add: exampleConfig_def)
  have ctl: "\<not> stringContainsCTLByte ''/foo''" by (simp add: stringContainsCTLByte_def)
  have e: "?P ''/foo'' = None"
    using Exec_validation_order [of exampleNetURL ?G "\<lparr>Config = exampleConfig\<rparr>" emptyWorld] ctl
    by simp
  from a a' b c d e show ?thesis by blast
qed

text \<open>
  C7, as stated, fails: the endpoint \<^verbatim>\<open>/foo\<close> has no scheme, so it is not an absolute
  URL, and the validation lets it through, with either treatment of control bytes. The
  run then ends without an error, or with the error of the fetch.
\<close>

theorem absolute_path_passes_validation:
  "schemeOf ''/foo'' = []
   \<and> urlParseRequestURI exampleNetURL ''/foo'' = None
   \<and> urlParseRequestURI (exampleNetURL\<lparr>rejectsControlBytes := True\<rparr>) ''/foo'' = None
   \<and> snd (Exec (urlParseRequestURI exampleNetURL) (\<lambda>r. Inr [])
        \<lparr>Config = exampleConfig\<lparr>ApiEndpoint := ''/foo''\<rparr>\<rparr> emptyWorld) = None
   \<and> snd (Exec (urlParseRequestURI exampleNetURL) (\<lambda>r. Inl ''unsupported protocol scheme'')
        \<lparr>Config = exampleConfig\<lparr>ApiEndpoint := ''/foo''\<rparr>\<rparr> emptyWorld)
      = Some (FetchError ''unsupported protocol scheme'')"
  by (simp add: parser_eval stringContainsCTLByte_def Exec_def getSecrets_def exampleConfig_def)

text \<open>
  C8, as amended. When \<^verbatim>\<open>url.ParseRequestURI\<close> returns an error for the endpoint,
  \<^verbatim>\<open>Exec\<close> returns that error, sends no request and leaves the files alone, whatever the
  HTTP exchange would have answered. This is the case of the empty endpoint and of every
  endpoint other than \<^verbatim>\<open>*\<close> that has neither a scheme nor a leading slash.
\<close>

theorem invalid_endpoint_sends_nothing:
  "(\<forall>m. urlParseRequestURI lib (ApiEndpoint (Config p)) = Some m
      \<longrightarrow> Exec (urlParseRequestURI lib) G p w = (w, Some (UrlError m))
          \<and> sent (fst (Exec (urlParseRequestURI lib) G p w)) = sent w
          \<and> files (fst (Exec (urlParseRequestURI lib) G p w)) = files w
          \<and> (\<forall>G'. Exec (urlParseRequestURI lib) G' p w = Exec (urlParseRequestURI lib) G p w))
   \<and> (ApiEndpoint (Config p) \<noteq> ''*'' \<and> take 1 (ApiEndpoint (Config p)) \<noteq> ''/''
        \<and> schemeOf (ApiEndpoint (Config p)) = []
      \<longrightarrow> (\<exists>m. Exec (urlParseRequestURI lib) G p w = (w, Some (UrlError m)))
          \<and> sent (fst (Exec (urlParseRequestURI lib) G p w)) = sent w)"
proof -
  have a: "Exec (urlParseRequestURI lib) G p w = (w, Some (UrlError m))
          \<and> sent (fst (Exec (urlParseRequestURI lib) G p w)) = sent w
          \<and> files (fst (Exec (urlParseRequestURI lib) G p w)) = files w
          \<and> (\<forall>G'. Exec (urlParseRequestURI lib) G' p w = Exec (urlParseRequestURI lib) G p w)"
    if "urlParseRequestURI lib (ApiEndpoint (Config p)) = Some m" for m
    using that by (rule Exec_rejected_endpoint)
  have b: "(\<exists>m. Exec (urlParseRequestURI lib) G p w = (w, Some (UrlError m)))
          \<and> sent (fst (Exec (urlParseRequestURI lib) G p w)) = sent w"
    if "ApiEndpoint (Config p) \<noteq> ''*''" "take 1 (ApiEndpoint (Config p)) \<noteq> ''/''"
       "schemeOf (ApiEndpoint (Config p)) = []"
  proof -
    from that have "urlParseRequestURI lib (ApiEndpoint (Config p)) \<noteq> None"
      by (rule urlParseRequestURI_rejects)
    then obtain m where "urlParseRequestURI lib (ApiEndpoint (Config p)) = Some m" by blast
    from a [OF this] show ?thesis by blast
  qed
  from a b show ?thesis by blast
qed

theorem invalid_endpoint_sends_nothing_witness:
  "Exec (urlParseRequestURI exampleNetURL) (\<lambda>r. Inr [zeroPassword\<lparr>Title := ''db'', Password := ''p@ss''\<rparr>])
      \<lparr>Config = exampleConfig\<lparr>ApiEndpoint := ''ps.example.com''\<rparr>\<rparr> emptyWorld
     = (emptyWorld, Some (UrlError ''invalid URI for request''))
   \<and> sent (fst (Exec (urlParseRequestURI exampleNetURL)
        (\<lambda>r. Inr [zeroPassword\<lparr>Title := ''db'', Password := ''p@ss''\<rparr>])
        \<lparr>Config = exampleConfig\<lparr>ApiEndpoint := ''ps.example.com''\<rparr>\<rparr> emptyWorld)) = []"
proof -
  have e: "urlParseRequestURI exampleNetURL ''ps.example.com'' = Some ''invalid URI for request''"
    by (simp add: parser_eval)
  show ?thesis
    using invalid_endpoint_sends_nothing [of exampleNetURL
        "\<lparr>Config = exampleConfig\<lparr>ApiEndpoint := ''ps.example.com''\<rparr>\<rparr>"
        "\<lambda>r. Inr [zeroPassword\<lparr>Title := ''db'', Password := ''p@ss''\<rparr>]" emptyWorld] e
    by (simp add: exampleConfig_def emptyWorld_def)
qed

text \<open>
  C8, as stated, fails: the endpoint \<^verbatim>\<open>/foo\<close> has no scheme, so it is not a valid
  absolute URL, yet the request is built, with the URL \<^verbatim>\<open>/foo/passwords/{PasswordListID}\<close>,
  and sent; the error \<^verbatim>\<open>Exec\<close> returns is the one of the fetch.
\<close>

theorem absolute_path_reaches_fetch:
  "schemeOf ''/foo'' = []
   \<and> sent (fst (Exec (urlParseRequestURI exampleNetURL) (\<lambda>r. Inl ''unsupported protocol scheme'')
        \<lparr>Config = exampleConfig\<lparr>ApiEndpoint := ''/foo''\<rparr>\<rparr> emptyWorld))
      = [request (exampleConfig\<lparr>ApiEndpoint := ''/foo''\<rparr>)]
   \<and> RequestURL (request (exampleConfig\<lparr>ApiEndpoint := ''/foo''\<rparr>)) = ''/foo/passwords/{PasswordListID}''
   \<and> snd (Exec (urlParseRequestURI exampleNetURL) (\<lambda>r. Inl ''unsupported protocol scheme'')
        \<lparr>Config = exampleConfig\<lparr>ApiEndpoint := ''/foo''\<rparr>\<rparr> emptyWorld)
      = Some (FetchError ''unsupported protocol scheme'')"
  by (simp add: parser_eval Exec_def getSecrets_def exampleConfig_def emptyWorld_def request_def)

text \<open>
  C9. Once the endpoint parses, the list identifier is rejected exactly when it is zero.
  A negative identifier, with an API key and the \<^verbatim>\<open>YAML\<close> format, gets the request sent,
  and the path parameter \<^verbatim>\<open>PasswordListID\<close> of that request is a minus sign followed by
  the decimal digits of the identifier's absolute value.
\<close>

theorem negative_list_id_passes:
  assumes "P (ApiEndpoint (Config p)) = None"
  shows "(snd (Exec P G p w) = Some ListIdNotValid \<longleftrightarrow> PasswordListId (Config p) = 0)
    \<and> (sint (PasswordListId (Config p)) < 0 \<and> ApiKey (Config p) \<noteq> []
          \<and> OutputFormat (Config p) = ''YAML''
        \<longrightarrow> sent (fst (Exec P G p w)) = sent w @ [request (Config p)])
    \<and> (sint (PasswordListId (Config p)) < 0
        \<longrightarrow> PathParams (request (Config p)) ''PasswordListID''
              = Some (CHR ''-'' # FormatUint (nat (- sint (PasswordListId (Config p)))))
          \<and> foldl (\<lambda>a ch. 10 * a + (of_char ch - 48)) 0
               (FormatUint (nat (- sint (PasswordListId (Config p)))))
              = nat (- sint (PasswordListId (Config p))))"
proof -
  have a: "snd (Exec P G p w) = Some ListIdNotValid \<longleftrightarrow> PasswordListId (Config p) = 0"
  proof (cases "PasswordListId (Config p) = 0")
    case True
    then show ?thesis using assms by (simp add: Exec_def)
  next
    case False
    then show ?thesis using assms
      by (auto simp add: Exec_def getSecrets_def Let_def split: sum.splits)
  qed
  have b: "sent (fst (Exec P G p w)) = sent w @ [request (Config p)]"
    if "sint (PasswordListId (Config p)) < 0" "ApiKey (Config p) \<noteq> []"
       "OutputFormat (Config p) = ''YAML''"
  proof -
    from that(1) have "PasswordListId (Config p) \<noteq> 0" by auto
    then show ?thesis using sent_Exec_valid [of P p G w] assms that by simp
  qed
  have c: "PathParams (request (Config p)) ''PasswordListID''
              = Some (CHR ''-'' # FormatUint (nat (- sint (PasswordListId (Config p)))))"
    if "sint (PasswordListId (Config p)) < 0"
    using that by (simp add: request_def Itoa_def)
  from a b c show ?thesis by (simp add: FormatUint_value)
qed

theorem negative_list_id_passes_witness:
  "snd (Exec parseNonEmpty (\<lambda>r. Inr []) \<lparr>Config = exampleConfig\<lparr>PasswordListId := - 1\<rparr>\<rparr> emptyWorld)
     \<noteq> Some ListIdNotValid
   \<and> sent (fst (Exec parseNonEmpty (\<lambda>r. Inr []) \<lparr>Config = exampleConfig\<lparr>PasswordListId := - 1\<rparr>\<rparr> emptyWorld))
     = [request (exampleConfig\<lparr>PasswordListId := - 1\<rparr>)]
   \<and> PathParams (request (exampleConfig\<lparr>PasswordListId := - 1\<rparr>)) ''PasswordListID'' = Some ''-1''"
  using negative_list_id_passes [of parseNonEmpty "\<lparr>Config = exampleConfig\<lparr>PasswordListId := - 1\<rparr>\<rparr>"
      "\<lambda>r. Inr []" emptyWorld]
  by (simp add: parseNonEmpty_def exampleConfig_def emptyWorld_def FormatUint.simps digit_def)

text \<open>
  C10. For a non-string field \<^verbatim>\<open>PasswordID\<close>, \<^verbatim>\<open>AccountTypeID\<close> or \<^verbatim>\<open>AllowExport\<close>, the
  extracted string is \<^verbatim>\<open>"<int Value>"\<close> or \<^verbatim>\<open>"<bool Value>"\<close>. A password whose other
  configured field qualifies is then kept, with the placeholder as its key or as its
  value, and the file (none at the path before) holds the placeholder as the key of the
  line, or as its value (base64-encoded when encoding is on).
\<close>

theorem non_string_field_gives_placeholder:
  assumes "f \<in> {''PasswordID'', ''AccountTypeID'', ''AllowExport''}"
    and "String (FieldByName r g) \<noteq> []" and "String (FieldByName r g) \<noteq> ''<invalid Value>''"
    and "filename \<noteq> []" and "fs filename = None"
  shows "String (FieldByName r f) = (if f = ''AllowExport'' then ''<bool Value>'' else ''<int Value>'')
    \<and> convert f g [r] [] = [\<lparr>Key = String (FieldByName r f), Value = String (FieldByName r g)\<rparr>]
    \<and> convert g f [r] [] = [\<lparr>Key = String (FieldByName r g), Value = String (FieldByName r f)\<rparr>]
    \<and> fst (outputToYaml fs filename section encode (convert f g [r] [])) filename =
        Some (Regular (''---'' @ [LF] @ section @ '':'' @ [LF]
          @ ''  '' @ String (FieldByName r f) @ '': '' @ [APOS]
          @ (if encode then EncodeToString (Trim (String (FieldByName r g)) '' '')
             else Trim (String (FieldByName r g)) '' '')
          @ [APOS, LF]))
    \<and> fst (outputToYaml fs filename section encode (convert g f [r] [])) filename =
        Some (Regular (''---'' @ [LF] @ section @ '':'' @ [LF]
          @ ''  '' @ Trim (String (FieldByName r g)) '' '' @ '': '' @ [APOS]
          @ (if encode then EncodeToString (String (FieldByName r f)) else String (FieldByName r f))
          @ [APOS, LF]))"
proof -
  define k where "k = String (FieldByName r f)"
  define v where "v = String (FieldByName r g)"
  have ph: "k = (if f = ''AllowExport'' then ''<bool Value>'' else ''<int Value>'')"
    unfolding k_def using assms(1) by (rule String_non_string_field)
  then have "k = ''<int Value>'' \<or> k = ''<bool Value>''" by (cases "f = ''AllowExport''") simp_all
  then have k: "k \<noteq> []" "k \<noteq> ''<invalid Value>''" "Trim k '' '' = k"
    by (rule placeholder_kept)+
  have v: "v \<noteq> []" "v \<noteq> ''<invalid Value>''"
    unfolding v_def using assms(2,3) by blast+
  have c1: "convert f g [r] [] = [\<lparr>Key = k, Value = v\<rparr>]"
    using k(1,2) v k_def [symmetric] v_def [symmetric] by (rule convert_single)
  have c2: "convert g f [r] [] = [\<lparr>Key = v, Value = k\<rparr>]"
    using v k(1,2) v_def [symmetric] k_def [symmetric] by (rule convert_single)
  have out: "fst (outputToYaml fs filename section encode secrets) filename =
      Some (Regular (document section encode secrets))" for secrets
    using outputToYaml_absent [of filename fs] assms(4,5) by simp
  have d1: "document section encode [\<lparr>Key = k, Value = v\<rparr>] =
      ''---'' @ [LF] @ section @ '':'' @ [LF] @ ''  '' @ k @ '': '' @ [APOS]
          @ (if encode then EncodeToString (Trim v '' '') else Trim v '' '') @ [APOS, LF]"
    by (simp add: document_def yamlLine_def k(3))
  have d2: "document section encode [\<lparr>Key = v, Value = k\<rparr>] =
      ''---'' @ [LF] @ section @ '':'' @ [LF] @ ''  '' @ Trim v '' '' @ '': '' @ [APOS]
          @ (if encode then EncodeToString k else k) @ [APOS, LF]"
    by (simp add: document_def yamlLine_def k(3))
  have "k = (if f = ''AllowExport'' then ''<bool Value>'' else ''<int Value>'')
    \<and> convert f g [r] [] = [\<lparr>Key = k, Value = v\<rparr>]
    \<and> convert g f [r] [] = [\<lparr>Key = v, Value = k\<rparr>]
    \<and> fst (outputToYaml fs filename section encode (convert f g [r] [])) filename =
        Some (Regular (''---'' @ [LF] @ section @ '':'' @ [LF] @ ''  '' @ k @ '': '' @ [APOS]
          @ (if encode then EncodeToString (Trim v '' '') else Trim v '' '') @ [APOS, LF]))
    \<and> fst (outputToYaml fs filename section encode (convert g f [r] [])) filename =
        Some (Regular (''---'' @ [LF] @ section @ '':'' @ [LF] @ ''  '' @ Trim v '' '' @ '': '' @ [APOS]
          @ (if encode then EncodeToString k else k) @ [APOS, LF]))"
    unfolding c1 c2 out d1 d2 using ph by (intro conjI refl)
  then show ?thesis unfolding k_def v_def .
qed

theorem non_string_field_gives_placeholder_witness:
  "convert ''PasswordID'' ''AllowExport'' [zeroPassword\<lparr>PasswordID := 7\<rparr>] []
     = [\<lparr>Key = ''<int Value>'', Value = ''<bool Value>''\<rparr>]
   \<and> fst (outputToYaml Map.empty ''out.yml'' ''secrets'' False
        (convert ''PasswordID'' ''AllowExport'' [zeroPassword\<lparr>PasswordID := 7\<rparr>] [])) ''out.yml''
     = Some (Regular (''---'' @ [LF] @ ''secrets:'' @ [LF]
          @ ''  <int Value>: '' @ [APOS] @ ''<bool Value>'' @ [APOS, LF]))"
proof -
  have s: "String (FieldByName (zeroPassword\<lparr>PasswordID := 7\<rparr>) ''PasswordID'') = ''<int Value>''"
    "String (FieldByName (zeroPassword\<lparr>PasswordID := 7\<rparr>) ''AllowExport'') = ''<bool Value>''"
    by (simp_all add: FieldByName_def)
  have t: "Trim ''<bool Value>'' '' '' = ''<bool Value>''" by (simp add: Trim_def)
  show ?thesis
    using non_string_field_gives_placeholder [of "''PasswordID''" "zeroPassword\<lparr>PasswordID := 7\<rparr>"
      "''AllowExport''" "''out.yml''" Map.empty "''secrets''" False]
    by (simp add: s t Let_def)
qed

end
